theory Spec2Isabelle
  imports Main
begin

section \<open>The layout component of the site (src/layouts/index.js)\<close>

text \<open>
  The repository's only program text is the default export of
  \<^verbatim>\<open>src/layouts/index.js\<close>: an arrow function from the props
  \<^verbatim>\<open>{ children, data }\<close> to a React element tree, together with the
  page query \<^verbatim>\<open>LayoutQuery\<close> and the site configuration in
  \<^verbatim>\<open>gatsby-config.js\<close>. The function is embedded below over a small
  universe of JavaScript values. A JavaScript function value is a state transformer over
  an arbitrary world \<open>'s\<close> that either returns a value or throws.
\<close>

subsection \<open>JavaScript values, errors and React elements\<close>

text \<open>
  The two ways in which the expression itself can throw are both \<^verbatim>\<open>TypeError\<close>s:
  reading a property of \<^verbatim>\<open>undefined\<close> or \<^verbatim>\<open>null\<close>, and calling a value
  that is not a function. \<open>Thrown\<close> is any other exception, raised by a callee.
\<close>

datatype type_error =
    CannotReadProperty string
  | NotAFunction string

datatype error =
    TypeError type_error
  | Thrown string

text \<open>
  Element types. \<^verbatim>\<open>styled.div`...`\<close> makes a component from a host tag and a
  style sheet; \<^verbatim>\<open>Helmet\<close> and \<^verbatim>\<open>Header\<close> are imported components, which
  the layout only references (it never calls them); \<open>Host\<close> is a plain tag such as
  \<^verbatim>\<open>style\<close>.
\<close>

datatype component =
    Host string
  | Styled string string
  | Helmet
  | Header

text \<open>
  \<open>Element c props kids\<close> is the value of \<^verbatim>\<open>React.createElement(c, props, ...kids)\<close>,
  which is what a JSX tag evaluates to. Objects are association lists from property names
  to values (the first binding of a name is the one that counts). Numbers are restricted
  to integers; no operation of the layout computes with them.
\<close>

datatype 's jsval =
    Undefined
  | Null
  | Boolean bool
  | Number int
  | Str string
  | Obj "(string \<times> 's jsval) list"
  | Arr "'s jsval list"
  | Element component "(string \<times> 's jsval) list" "'s jsval list"
  | Func "'s \<Rightarrow> (error + 's jsval) \<times> 's"

type_synonym 's completion = "(error + 's jsval) \<times> 's"

subsection \<open>Property access and calls\<close>

fun nullish :: "'s jsval \<Rightarrow> bool" where
  "nullish Undefined = True"
| "nullish Null = True"
| "nullish _ = False"

text \<open>
  \<open>own v p\<close> is the value of the property \<open>p\<close> of a value \<open>v\<close> that is neither
  \<^verbatim>\<open>undefined\<close> nor \<^verbatim>\<open>null\<close>. It is used for the names \<^verbatim>\<open>site\<close>,
  \<^verbatim>\<open>siteMetadata\<close> and \<^verbatim>\<open>title\<close> only, which no built-in prototype defines, so
  every value that is not an object with such a property of its own yields \<^verbatim>\<open>undefined\<close>.
\<close>

fun own :: "'s jsval \<Rightarrow> string \<Rightarrow> 's jsval" where
  "own (Obj kvs) p = (case map_of kvs p of Some v \<Rightarrow> v | None \<Rightarrow> Undefined)"
| "own _ p = Undefined"

definition get_prop :: "'s jsval \<Rightarrow> string \<Rightarrow> error + 's jsval" where
  "get_prop v p = (if nullish v then Inl (TypeError (CannotReadProperty p)) else Inr (own v p))"

text \<open>
  \<open>call v name s\<close> is the call expression \<^verbatim>\<open>name()\<close> where the variable \<open>name\<close>
  holds \<open>v\<close>, in the world \<open>s\<close>.
\<close>

fun call :: "'s jsval \<Rightarrow> string \<Rightarrow> 's \<Rightarrow> 's completion" where
  "call (Func f) name s = f s"
| "call _ name s = (Inl (TypeError (NotAFunction name)), s)"

subsection \<open>The imported colours\<close>

text \<open>
  \<^verbatim>\<open>import COLORS from "../colors"\<close>: the colours are fixed by that module, not by the
  layout, so the three colours the layout reads are a parameter.
\<close>

record colors =
  DARK :: string
  BLACK :: string
  LIGHTEST :: string

subsection \<open>The styled components\<close>

definition Body_css :: "colors \<Rightarrow> string" where
  \<open>Body_css COLORS =
     ''\<newline>  display: flex;'' @
     ''\<newline>  flex-direction: column;'' @
     ''\<newline>  max-width: 800px;'' @
     ''\<newline>  margin: 0px auto;'' @
     ''\<newline>  font-family: -apple-system, BlinkMacSystemFont, "Segoe UI", Roboto, Helvetica,'' @
     ''\<newline>    Arial, sans-serif, "Apple Color Emoji", "Segoe UI Emoji", "Segoe UI Symbol";'' @
     ''\<newline>'' @
     ''\<newline>  a {'' @
     ''\<newline>    color: '' @ DARK COLORS @ '';'' @
     ''\<newline>    &:hover {'' @
     ''\<newline>      color: '' @ BLACK COLORS @ '';'' @
     ''\<newline>    }'' @
     ''\<newline>  }'' @
     ''\<newline>''\<close>

definition Body :: "colors \<Rightarrow> component" where
  "Body COLORS = Styled ''div'' (Body_css COLORS)"

definition Container :: component where
  "Container = Styled ''div'' ''''"

subsection \<open>The layout\<close>

text \<open>The text of the \<^verbatim>\<open>style\<close> element inside \<^verbatim>\<open>Helmet\<close>.\<close>

definition body_style :: "colors \<Rightarrow> string" where
  "body_style COLORS =
     ''\<newline>        body {'' @
     ''\<newline>          background-color: '' @ LIGHTEST COLORS @ '';'' @
     ''\<newline>        }'' @
     ''\<newline>    ''"

text \<open>
  The array literal passed as \<^verbatim>\<open>meta\<close>.
\<close>

definition meta :: "'s jsval" where
  "meta = Arr
     [Obj [(''name'', Str ''description''), (''content'', Str ''Personal website'')],
      Obj [(''name'', Str ''keywords''), (''content'', Str ''blog, showcase, personal'')]]"

text \<open>\<^verbatim>\<open>data.site.siteMetadata.title\<close>, read from left to right.\<close>

definition data_site_siteMetadata_title :: "'s jsval \<Rightarrow> error + 's jsval" where
  "data_site_siteMetadata_title data =
     (case get_prop data ''site'' of
        Inl e \<Rightarrow> Inl e
      | Inr site \<Rightarrow>
          (case get_prop site ''siteMetadata'' of
             Inl e \<Rightarrow> Inl e
           | Inr siteMetadata \<Rightarrow> get_prop siteMetadata ''title''))"

text \<open>
  The default export. JSX evaluates its attributes and children in source order: first the
  title, which throws when the metadata is missing, then the \<^verbatim>\<open>style\<close> text, and
  last \<^verbatim>\<open>children()\<close>, whose effect on the world and whose exception, if any, become
  those of the layout.
\<close>

definition layout :: "colors \<Rightarrow> 's jsval \<Rightarrow> 's jsval \<Rightarrow> 's \<Rightarrow> 's completion" where
  "layout COLORS children data s =
     (case data_site_siteMetadata_title data of
        Inl e \<Rightarrow> (Inl e, s)
      | Inr title \<Rightarrow>
          (case call children ''children'' s of
             (Inl e, s') \<Rightarrow> (Inl e, s')
           | (Inr content, s') \<Rightarrow>
               (Inr (Element (Body COLORS) []
                      [Element Helmet [(''title'', title), (''meta'', meta)]
                         [Element (Host ''style'') [(''type'', Str ''text/css'')]
                            [Str (body_style COLORS)]],
                       Element Header [] [],
                       Element Container [] [content]]),
                s')))"

subsection \<open>The site configuration and the page query\<close>

text \<open>
  \<^verbatim>\<open>siteMetadata\<close> of \<^verbatim>\<open>gatsby-config.js\<close>. The record is extensible, so a
  configuration may carry further fields.
\<close>

record site_metadata =
  title :: string
  author :: string

definition siteMetadata :: site_metadata where
  "siteMetadata = \<lparr>title = ''Fahad Almusharraf - Website'', author = ''Fahad Almusharraf''\<rparr>"

text \<open>
  The result of \<^verbatim>\<open>LayoutQuery\<close>, which the build passes to the layout as \<^verbatim>\<open>data\<close>:
  the query selects \<^verbatim>\<open>site { siteMetadata { title } }\<close> and nothing else.
\<close>

definition LayoutQuery :: "'a site_metadata_scheme \<Rightarrow> 's jsval" where
  "LayoutQuery M = Obj [(''site'', Obj [(''siteMetadata'', Obj [(''title'', Str (title M))])])]"

subsection \<open>Reading a composed document\<close>

fun element_type :: "'s jsval \<Rightarrow> component option" where
  "element_type (Element c ps ks) = Some c"
| "element_type _ = None"

fun props :: "'s jsval \<Rightarrow> (string \<times> 's jsval) list" where
  "props (Element c ps ks) = ps"
| "props _ = []"

fun kids :: "'s jsval \<Rightarrow> 's jsval list" where
  "kids (Element c ps ks) = ks"
| "kids _ = []"

definition elements_of :: "component \<Rightarrow> 's jsval \<Rightarrow> 's jsval list" where
  "elements_of c doc = filter (\<lambda>k. element_type k = Some c) (kids doc)"

text \<open>
  The document-level title and the descriptive tags are the \<^verbatim>\<open>title\<close> and
  \<^verbatim>\<open>meta\<close> props of the \<^verbatim>\<open>Helmet\<close> elements of the document, the global
  styles are their children, the header regions are the \<^verbatim>\<open>Header\<close> elements and a
  content region is the list of children of a \<^verbatim>\<open>Container\<close>.
\<close>

definition title_tag :: "'s jsval \<Rightarrow> 's jsval option list" where
  "title_tag doc = map (\<lambda>h. map_of (props h) ''title'') (elements_of Helmet doc)"

definition meta_tags :: "'s jsval \<Rightarrow> 's jsval option list" where
  "meta_tags doc = map (\<lambda>h. map_of (props h) ''meta'') (elements_of Helmet doc)"

definition global_styles :: "'s jsval \<Rightarrow> 's jsval list" where
  "global_styles doc = concat (map kids (elements_of Helmet doc))"

definition header_regions :: "'s jsval \<Rightarrow> 's jsval list" where
  "header_regions doc = elements_of Header doc"

definition content_region :: "'s jsval \<Rightarrow> 's jsval list list" where
  "content_region doc = map kids (elements_of Container doc)"

text \<open>
  The values React renders as nothing at all: \<^verbatim>\<open>undefined\<close>, \<^verbatim>\<open>null\<close>, the
  booleans and the empty string.
\<close>

fun renders_nothing :: "'s jsval \<Rightarrow> bool" where
  "renders_nothing Undefined = True"
| "renders_nothing Null = True"
| "renders_nothing (Boolean b) = True"
| "renders_nothing (Str t) = (t = [])"
| "renders_nothing _ = False"

text \<open>
  The site metadata is absent when \<^verbatim>\<open>data\<close>, \<^verbatim>\<open>data.site\<close> or
  \<^verbatim>\<open>data.site.siteMetadata\<close> is \<^verbatim>\<open>undefined\<close> or \<^verbatim>\<open>null\<close>.
\<close>

definition site_metadata_absent :: "'s jsval \<Rightarrow> bool" where
  "site_metadata_absent data \<longleftrightarrow>
     nullish data \<or> nullish (own data ''site'') \<or> nullish (own (own data ''site'') ''siteMetadata'')"

fun is_function :: "'s jsval \<Rightarrow> bool" where
  "is_function (Func f) = True"
| "is_function _ = False"

text \<open>Sample colours, for the concrete runs below.\<close>

definition sample_colors :: colors where
  "sample_colors = \<lparr>DARK = ''#333333'', BLACK = ''#000000'', LIGHTEST = ''#fafafa''\<rparr>"

section \<open>Properties of the layout\<close>

subsection \<open>Auxiliary facts\<close>

lemma title_of_LayoutQuery:
  "data_site_siteMetadata_title (LayoutQuery M) = Inr (Str (title M))"
  by (simp add: data_site_siteMetadata_title_def LayoutQuery_def get_prop_def)

lemma title_fails_iff:
  "(\<exists>e. data_site_siteMetadata_title data = Inl e) \<longleftrightarrow> site_metadata_absent data"
  by (simp add: data_site_siteMetadata_title_def site_metadata_absent_def get_prop_def)

lemma title_fails_with:
  "data_site_siteMetadata_title data = Inl e \<Longrightarrow> \<exists>p. e = TypeError (CannotReadProperty p)"
  by (auto simp: data_site_siteMetadata_title_def get_prop_def split: if_splits)

lemma LayoutQuery_present: "\<not> site_metadata_absent (LayoutQuery M)"
  by (simp add: site_metadata_absent_def LayoutQuery_def)

lemma layout_not_callable:
  assumes "data_site_siteMetadata_title data = Inr t" and "\<not> is_function children"
  shows "layout COLORS children data s = (Inl (TypeError (NotAFunction ''children'')), s)"
  using assms by (cases children) (simp_all add: layout_def)

lemma layout_success_cases:
  assumes "layout COLORS children data s = (Inr doc, s')"
  obtains f t c where "children = Func f" and "data_site_siteMetadata_title data = Inr t"
    and "f s = (Inr c, s')"
    and "doc = Element (Body COLORS) []
                  [Element Helmet [(''title'', t), (''meta'', meta)]
                     [Element (Host ''style'') [(''type'', Str ''text/css'')]
                        [Str (body_style COLORS)]],
                   Element Header [] [],
                   Element Container [] [c]]"
proof (cases "data_site_siteMetadata_title data")
  case (Inl e)
  with assms show ?thesis by (simp add: layout_def)
next
  case (Inr t)
  show ?thesis
  proof (cases "is_function children")
    case False
    from layout_not_callable [OF Inr False, of COLORS s] assms show ?thesis by simp
  next
    case True
    then obtain f where f: "children = Func f" by (cases children) simp_all
    obtain r s'' where r: "f s = (r, s'')" by (cases "f s")
    show ?thesis
    proof (cases r)
      case (Inl e)
      with assms Inr f r show ?thesis by (simp add: layout_def)
    next
      case c: (Inr c)
      with assms \<open>data_site_siteMetadata_title data = Inr t\<close> f r
      have "s'' = s'" and "doc = Element (Body COLORS) []
                  [Element Helmet [(''title'', t), (''meta'', meta)]
                     [Element (Host ''style'') [(''type'', Str ''text/css'')]
                        [Str (body_style COLORS)]],
                   Element Header [] [],
                   Element Container [] [c]]"
        by (simp_all add: layout_def)
      with that f r c \<open>data_site_siteMetadata_title data = Inr t\<close> show ?thesis by simp
    qed
  qed
qed

lemmas reading_defs =
  title_tag_def meta_tags_def global_styles_def header_regions_def content_region_def
  elements_of_def Container_def Body_def

subsection \<open>The title tag\<close>

text \<open>
  C1. For every site metadata record \<open>M\<close> and every page content \<open>C\<close>, the empty content
  included, the composed document has its document-level title set to the title of \<open>M\<close>.
  The content reaches the layout as the result of \<^verbatim>\<open>children()\<close>, and the metadata as
  the result of the page query.
\<close>

theorem layout_title_tag:
  assumes "f s = (Inr C, s')"
  shows "\<exists>doc. layout COLORS (Func f) (LayoutQuery M) s = (Inr doc, s') \<and>
           title_tag doc = [Some (Str (title M))]"
  using assms by (simp add: layout_def title_of_LayoutQuery reading_defs)

theorem layout_title_tag_witness:
  "\<exists>doc. layout sample_colors (Func (\<lambda>s. (Inr (Str ''''), s))) (LayoutQuery siteMetadata) ()
            = (Inr doc, ()) \<and>
         title_tag doc = [Some (Str ''Fahad Almusharraf - Website'')]"
  using layout_title_tag [of "\<lambda>s. (Inr (Str ''''), s)" "()" "Str ''''" "()" sample_colors siteMetadata]
  by (simp add: siteMetadata_def)

subsection \<open>Omitted and empty content\<close>

text \<open>
  C3 as stated fails: with the \<^verbatim>\<open>children\<close> prop omitted the layout
  calls \<^verbatim>\<open>undefined\<close> and throws, although the site metadata is present.
\<close>

theorem layout_omitted_children_fails:
  "layout sample_colors Undefined (LayoutQuery siteMetadata) ()
     = (Inl (TypeError (NotAFunction ''children'')), ())"
  by (simp add: layout_def title_of_LayoutQuery)

text \<open>
  C3, amended. When the page has no content because \<^verbatim>\<open>children()\<close> returns
  \<^verbatim>\<open>undefined\<close> or \<^verbatim>\<open>null\<close>, the layout still produces a document with the
  header and the global frame (title, style) and a content region that renders as nothing.
  When the \<^verbatim>\<open>children\<close> prop itself is omitted, composition fails with a
  \<^verbatim>\<open>TypeError\<close> and leaves the world unchanged.
\<close>

theorem layout_no_content:
  assumes "nullish C" and "f s = (Inr C, s')"
  shows "(\<exists>doc. layout COLORS (Func f) (LayoutQuery M) s = (Inr doc, s') \<and>
            header_regions doc = [Element Header [] []] \<and>
            title_tag doc = [Some (Str (title M))] \<and>
            global_styles doc =
              [Element (Host ''style'') [(''type'', Str ''text/css'')] [Str (body_style COLORS)]] \<and>
            content_region doc = [[C]] \<and> list_all renders_nothing [C]) \<and>
         layout COLORS Undefined (LayoutQuery M) s
           = (Inl (TypeError (NotAFunction ''children'')), s)"
proof -
  from assms(1) have "renders_nothing C" by (cases C) simp_all
  with assms(2) show ?thesis
    by (simp add: layout_def title_of_LayoutQuery reading_defs)
qed

theorem layout_no_content_witness:
  "nullish (Null :: unit jsval) \<and>
   (\<exists>doc. layout sample_colors (Func (\<lambda>s. (Inr Null, s))) (LayoutQuery siteMetadata) ()
             = (Inr doc, ()) \<and>
          header_regions doc = [Element Header [] []] \<and>
          content_region doc = [[Null]]) \<and>
   layout sample_colors Undefined (LayoutQuery siteMetadata) ()
     = (Inl (TypeError (NotAFunction ''children'')), ())"
  using layout_no_content [of "Null :: unit jsval" "\<lambda>s. (Inr Null, s)" "()" "()"
      sample_colors siteMetadata]
  by auto

text \<open>
  C6. An article with an empty body does not make the layout fail: for every content that
  renders as nothing, the empty string in particular, the document is produced as usual
  (title, header, global style) and its content region holds just that content.
\<close>

theorem layout_empty_body:
  assumes "renders_nothing C" and "f s = (Inr C, s')"
  shows "\<exists>doc. layout COLORS (Func f) (LayoutQuery M) s = (Inr doc, s') \<and>
           title_tag doc = [Some (Str (title M))] \<and>
           header_regions doc = [Element Header [] []] \<and>
           global_styles doc =
             [Element (Host ''style'') [(''type'', Str ''text/css'')] [Str (body_style COLORS)]] \<and>
           content_region doc = [[C]] \<and>
           list_all renders_nothing (concat (content_region doc))"
  using assms by (simp add: layout_def title_of_LayoutQuery reading_defs)

theorem layout_empty_body_witness:
  "renders_nothing (Str '''' :: unit jsval) \<and>
   (\<exists>doc. layout sample_colors (Func (\<lambda>s. (Inr (Str ''''), s))) (LayoutQuery siteMetadata) ()
             = (Inr doc, ()) \<and>
          title_tag doc = [Some (Str ''Fahad Almusharraf - Website'')] \<and>
          header_regions doc = [Element Header [] []] \<and>
          content_region doc = [[Str '''']])"
  using layout_empty_body [of "Str '''' :: unit jsval" "\<lambda>s. (Inr (Str ''''), s)" "()" "()"
      sample_colors siteMetadata]
  by (auto simp: siteMetadata_def)

subsection \<open>Errors\<close>

text \<open>
  C4 as stated fails: the site metadata is present and composition still
  fails, because \<^verbatim>\<open>children\<close> is \<^verbatim>\<open>null\<close> and not a function.
\<close>

theorem layout_fails_with_metadata_present:
  "\<not> site_metadata_absent (LayoutQuery siteMetadata :: unit jsval) \<and>
   layout sample_colors Null (LayoutQuery siteMetadata) ()
     = (Inl (TypeError (NotAFunction ''children'')), ())"
  by (simp add: layout_def title_of_LayoutQuery LayoutQuery_present)

text \<open>
  C4, amended. Composition fails exactly when the site metadata is absent, or
  \<^verbatim>\<open>children\<close> is not a function, or the call \<^verbatim>\<open>children()\<close> throws. Absent
  metadata fails fast: the error is the \<^verbatim>\<open>TypeError\<close> of reading a property of
  \<^verbatim>\<open>undefined\<close> or \<^verbatim>\<open>null\<close>, raised before \<^verbatim>\<open>children\<close> is called, so
  the world is left as it was.
\<close>

theorem layout_error_iff:
  "((\<exists>e. fst (layout COLORS children data s) = Inl e) \<longleftrightarrow>
      site_metadata_absent data \<or> \<not> is_function children \<or>
      (\<exists>f e. children = Func f \<and> fst (f s) = Inl e)) \<and>
   (site_metadata_absent data \<longrightarrow>
      (\<exists>p. layout COLORS children data s = (Inl (TypeError (CannotReadProperty p)), s)))"
proof (cases "data_site_siteMetadata_title data")
  case (Inl e)
  then have absent: "site_metadata_absent data"
    using title_fails_iff [of data] by blast
  from Inl obtain p where "e = TypeError (CannotReadProperty p)"
    using title_fails_with by blast
  with Inl have "layout COLORS children data s = (Inl (TypeError (CannotReadProperty p)), s)"
    by (simp add: layout_def)
  with absent show ?thesis by auto
next
  case (Inr t)
  then have present: "\<not> site_metadata_absent data"
    using title_fails_iff [of data] by auto
  show ?thesis
  proof (cases "is_function children")
    case False
    with layout_not_callable [OF Inr False, of COLORS s] present show ?thesis by simp
  next
    case True
    then obtain f where f: "children = Func f" by (cases children) simp_all
    obtain r s' where r: "f s = (r, s')" by (cases "f s")
    from Inr f r have "fst (layout COLORS children data s) = Inl e \<longleftrightarrow> r = Inl e" for e
      by (cases r) (simp_all add: layout_def)
    with present f r show ?thesis by simp
  qed
qed

theorem layout_error_iff_witness:
  "site_metadata_absent (Obj [(''site'', Null)] :: nat jsval) \<and>
   (\<exists>e. fst (layout sample_colors (Func (\<lambda>n. (Inr (Str ''x''), Suc n)))
              (Obj [(''site'', Null)]) (0::nat)) = Inl e) \<and>
   (\<exists>p. layout sample_colors (Func (\<lambda>n. (Inr (Str ''x''), Suc n)))
              (Obj [(''site'', Null)]) (0::nat)
         = (Inl (TypeError (CannotReadProperty p)), 0))"
proof -
  have absent: "site_metadata_absent (Obj [(''site'', Null)] :: nat jsval)"
    by (simp add: site_metadata_absent_def)
  with layout_error_iff [of sample_colors "Func (\<lambda>n. (Inr (Str ''x''), Suc n))"
      "Obj [(''site'', Null)] :: nat jsval" 0]
  show ?thesis by blast
qed

subsection \<open>The fixed parts of the document\<close>

text \<open>
  C5. Whatever the metadata \<open>M\<close> and the content \<open>C\<close>, the document carries the two fixed
  descriptive tags: a description with content "Personal website" and keywords with content
  "blog, showcase, personal".
\<close>

theorem layout_meta_tags:
  assumes "f s = (Inr C, s')"
  shows "\<exists>doc. layout COLORS (Func f) (LayoutQuery M) s = (Inr doc, s') \<and>
           meta_tags doc =
             [Some (Arr
                [Obj [(''name'', Str ''description''), (''content'', Str ''Personal website'')],
                 Obj [(''name'', Str ''keywords''),
                      (''content'', Str ''blog, showcase, personal'')]])]"
  using assms by (simp add: layout_def title_of_LayoutQuery reading_defs meta_def)

theorem layout_meta_tags_witness:
  "\<exists>doc. layout sample_colors (Func (\<lambda>n. (Inr (Str ''<h1>Articles</h1>''), n + 1)))
            (LayoutQuery siteMetadata) (7::nat) = (Inr doc, 8) \<and>
         meta_tags doc =
           [Some (Arr
              [Obj [(''name'', Str ''description''), (''content'', Str ''Personal website'')],
               Obj [(''name'', Str ''keywords''),
                    (''content'', Str ''blog, showcase, personal'')]])]"
  using layout_meta_tags [of "\<lambda>n. (Inr (Str ''<h1>Articles</h1>''), n + 1)" "7::nat"
      "Str ''<h1>Articles</h1>''" 8 sample_colors siteMetadata]
  by simp

text \<open>
  C8. Whatever the metadata and the content, the document has one fixed shape: a
  \<^verbatim>\<open>Body\<close> with exactly three children, in this order: the \<^verbatim>\<open>Helmet\<close>, whose only
  child is the style sheet that sets the background colour of the page to
  \<^verbatim>\<open>COLORS.LIGHTEST\<close>; the \<^verbatim>\<open>Header\<close>; and the \<^verbatim>\<open>Container\<close>, whose only
  child is the supplied content.
\<close>

theorem layout_frame:
  assumes "f s = (Inr C, s')"
  shows "\<exists>helmet. layout COLORS (Func f) (LayoutQuery M) s =
             (Inr (Element (Body COLORS) []
                     [helmet, Element Header [] [], Element Container [] [C]]), s') \<and>
           element_type helmet = Some Helmet \<and>
           kids helmet =
             [Element (Host ''style'') [(''type'', Str ''text/css'')]
                [Str (''\<newline>        body {\<newline>          background-color: '' @
                      LIGHTEST COLORS @ '';\<newline>        }\<newline>    '')]]"
  using assms by (simp add: layout_def title_of_LayoutQuery body_style_def)

theorem layout_frame_witness:
  "\<exists>helmet. layout sample_colors (Func (\<lambda>s. (Inr (Str ''<p>Post</p>''), s)))
               (LayoutQuery siteMetadata) () =
             (Inr (Element (Body sample_colors) []
                     [helmet, Element Header [] [], Element Container [] [Str ''<p>Post</p>'']]),
              ()) \<and>
           element_type helmet = Some Helmet \<and>
           kids helmet =
             [Element (Host ''style'') [(''type'', Str ''text/css'')]
                [Str ''\<newline>        body {\<newline>          background-color: #fafafa;\<newline>        }\<newline>    '']]"
  using layout_frame [of "\<lambda>s. (Inr (Str ''<p>Post</p>''), s)" "()" "Str ''<p>Post</p>''" "()"
      sample_colors siteMetadata]
  by (simp add: sample_colors_def)

subsection \<open>A concrete composition\<close>

text \<open>
  C7. For the metadata of \<^verbatim>\<open>gatsby-config.js\<close>, title "Fahad Almusharraf - Website"
  and author "Fahad Almusharraf", and the content "<p>Hello</p>", the composed document
  has the title "Fahad Almusharraf - Website" and a content region holding "<p>Hello</p>".
\<close>

theorem layout_example:
  "siteMetadata = \<lparr>title = ''Fahad Almusharraf - Website'', author = ''Fahad Almusharraf''\<rparr> \<and>
   (\<exists>doc. layout COLORS (Func (\<lambda>s. (Inr (Str ''<p>Hello</p>''), s)))
             (LayoutQuery \<lparr>title = ''Fahad Almusharraf - Website'',
                            author = ''Fahad Almusharraf''\<rparr>) s
           = (Inr doc, s) \<and>
          title_tag doc = [Some (Str ''Fahad Almusharraf - Website'')] \<and>
          content_region doc = [[Str ''<p>Hello</p>'']])"
  by (simp add: siteMetadata_def layout_def title_of_LayoutQuery reading_defs)

subsection \<open>What the document depends on\<close>

text \<open>
  C9. The document depends on the site metadata through its title only: two metadata
  records with the same title, whatever their authors and their further fields, give the
  same outcome for the same \<^verbatim>\<open>children\<close> in the same world.
\<close>

theorem layout_title_only:
  fixes M1 :: "'a site_metadata_scheme" and M2 :: "'b site_metadata_scheme"
  assumes "title M1 = title M2"
  shows "layout COLORS children (LayoutQuery M1) s = layout COLORS children (LayoutQuery M2) s"
  using assms by (simp add: LayoutQuery_def)

theorem layout_title_only_witness:
  "title siteMetadata = title (siteMetadata\<lparr>author := ''Somebody Else''\<rparr>) \<and>
   author siteMetadata \<noteq> author (siteMetadata\<lparr>author := ''Somebody Else''\<rparr>) \<and>
   layout sample_colors (Func (\<lambda>s. (Inr (Str ''<p>Hello</p>''), s))) (LayoutQuery siteMetadata) ()
     = layout sample_colors (Func (\<lambda>s. (Inr (Str ''<p>Hello</p>''), s)))
         (LayoutQuery (siteMetadata\<lparr>author := ''Somebody Else''\<rparr>)) ()"
  using layout_title_only [of siteMetadata "siteMetadata\<lparr>author := ''Somebody Else''\<rparr>"
      sample_colors "Func (\<lambda>s. (Inr (Str ''<p>Hello</p>''), s))" "()"]
  by (simp add: siteMetadata_def)

subsection \<open>The content is a function\<close>

text \<open>
  C10. The layout consumes \<^verbatim>\<open>children\<close> as a function of no arguments: whenever
  composition succeeds, \<^verbatim>\<open>children\<close> is a function, the layout has called it in the
  world it started in, the world it ends in is the one that call left, and the value the call
  returned is the only child of the container. A \<^verbatim>\<open>children\<close> that is not a function
  never yields a document.
\<close>

theorem layout_children_called:
  "(layout COLORS children data s = (Inr doc, s') \<longrightarrow>
      (\<exists>f C. children = Func f \<and> f s = (Inr C, s') \<and> content_region doc = [[C]])) \<and>
   (\<not> is_function children \<longrightarrow> (\<exists>e. fst (layout COLORS children data s) = Inl e))"
proof (intro conjI impI)
  assume "layout COLORS children data s = (Inr doc, s')"
  then show "\<exists>f C. children = Func f \<and> f s = (Inr C, s') \<and> content_region doc = [[C]]"
    by (rule layout_success_cases) (simp add: reading_defs)
next
  assume not_fun: "\<not> is_function children"
  show "\<exists>e. fst (layout COLORS children data s) = Inl e"
  proof (cases "data_site_siteMetadata_title data")
    case (Inl e)
    then show ?thesis by (simp add: layout_def)
  next
    case (Inr t)
    from layout_not_callable [OF Inr not_fun, of COLORS s] show ?thesis by simp
  qed
qed

theorem layout_children_called_witness:
  "layout sample_colors (Func (\<lambda>n. (Inr (Str ''<p>Hello</p>''), Suc n)))
     (LayoutQuery siteMetadata) (0::nat)
     = (Inr (Element (Body sample_colors) []
               [Element Helmet [(''title'', Str (title siteMetadata)), (''meta'', meta)]
                  [Element (Host ''style'') [(''type'', Str ''text/css'')]
                     [Str (body_style sample_colors)]],
                Element Header [] [],
                Element Container [] [Str ''<p>Hello</p>'']]), Suc 0) \<and>
   content_region (Element (Body sample_colors) []
               [Element Helmet [(''title'', Str (title siteMetadata)), (''meta'', meta)]
                  [Element (Host ''style'') [(''type'', Str ''text/css'')]
                     [Str (body_style sample_colors)]],
                Element Header [] [],
                Element Container [] [Str ''<p>Hello</p>'']] :: nat jsval)
     = [[Str ''<p>Hello</p>'']] \<and>
   \<not> is_function (Str ''<p>Hello</p>'' :: nat jsval) \<and>
   (\<exists>e. fst (layout sample_colors (Str ''<p>Hello</p>'') (LayoutQuery siteMetadata) (0::nat))
          = Inl e)"
proof -
  have run: "layout sample_colors (Func (\<lambda>n. (Inr (Str ''<p>Hello</p>''), Suc n)))
     (LayoutQuery siteMetadata) (0::nat)
     = (Inr (Element (Body sample_colors) []
               [Element Helmet [(''title'', Str (title siteMetadata)), (''meta'', meta)]
                  [Element (Host ''style'') [(''type'', Str ''text/css'')]
                     [Str (body_style sample_colors)]],
                Element Header [] [],
                Element Container [] [Str ''<p>Hello</p>'']]), Suc 0)"
    by (simp add: layout_def title_of_LayoutQuery)
  have not_fun: "\<not> is_function (Str ''<p>Hello</p>'' :: nat jsval)" by simp
  from layout_children_called [where COLORS = sample_colors
      and children = "Func (\<lambda>n. (Inr (Str ''<p>Hello</p>''), Suc n))"
      and data = "LayoutQuery siteMetadata" and s = "0::nat" and s' = "Suc 0"] run
  have "content_region (Element (Body sample_colors) []
               [Element Helmet [(''title'', Str (title siteMetadata)), (''meta'', meta)]
                  [Element (Host ''style'') [(''type'', Str ''text/css'')]
                     [Str (body_style sample_colors)]],
                Element Header [] [],
                Element Container [] [Str ''<p>Hello</p>'']] :: nat jsval)
     = [[Str ''<p>Hello</p>'']]"
    by fastforce
  moreover from layout_children_called [where children = "Str ''<p>Hello</p>'' :: nat jsval"
      and COLORS = sample_colors and data = "LayoutQuery siteMetadata" and s = "0::nat"] not_fun
  have "\<exists>e. fst (layout sample_colors (Str ''<p>Hello</p>'') (LayoutQuery siteMetadata) (0::nat))
          = Inl e"
    by blast
  ultimately show ?thesis using run not_fun by blast
qed

end
